theory Spec2Isabelle
  imports Main
begin

section \<open>Data model\<close>

text \<open>
  The conversation as the assistant package reads it (package \<open>model\<close>): a role is a Go
  string type with two named constants, a message has a role and a content, a conversation
  is the ordered list of its messages. Identifiers and timestamps are only logged and are
  left out. Go strings are byte sequences and so is \<open>string\<close> here: \<open>length\<close> is Go's
  \<open>len\<close>.
\<close>

type_synonym Role = string

definition RoleUser :: Role where
  "RoleUser = ''user''"

definition RoleAssistant :: Role where
  "RoleAssistant = ''assistant''"

record Message =
  m_Role :: Role
  m_Content :: string

record Conversation =
  Messages :: "Message list"

text \<open>
  The part of the OpenAI client library the assistant touches. A tool call of a response
  carries its correlation id, its type tag and the name and argument payload of both union
  members. A message parameter is one entry of the history sent to the backend;
  \<open>ToParam\<close> is the assistant message that echoes a response with its tool calls, and
  \<open>ToolMessage content id\<close> is a tool result correlated to the call \<open>id\<close>.
\<close>

record tool_call =
  call_ID :: string
  call_Type :: string
  Function_Name :: string
  Function_Arguments :: string
  Custom_Name :: string
  Custom_Input :: string

datatype chat_message_param =
    SystemMessage string
  | UserMessage string
  | AssistantMessage string
  | ToParam string "tool_call list"
  | ToolMessage string string

record chat_completion_message =
  msg_Content :: string
  msg_ToolCalls :: "tool_call list"

record chat_completion =
  Choices :: "chat_completion_message list"

datatype chat_model = ChatModelGPT4o | ChatModelGPT4_1

text \<open>
  The request of one backend call. The advertised tool definitions are kept by their
  function names, in order; their descriptions and JSON schemas play no part in control flow.
\<close>

record chat_params =
  p_Model :: chat_model
  p_Messages :: "chat_message_param list"
  p_Tools :: "string list"

text \<open>
  The backend is outside the program: \<open>Chat.Completions.New\<close> is a function of the
  request and of the state of the world \<open>'w\<close>, returning the error's text or the
  response, and the next state of the world.
\<close>

type_synonym 'w completions =
  "chat_params \<Rightarrow> 'w \<Rightarrow> (string + chat_completion) \<times> 'w"

text \<open>
  Every error value the assistant returns. \<open>ClientError\<close> is the backend's own error,
  passed on unchanged; the others are made with \<open>errors.New\<close> and \<open>Error\<close> gives
  their texts.
\<close>

datatype error =
    ClientError string
  | EmptyTitleResponse
  | NoMessages
  | NoChoices
  | UnknownToolCall string
  | TooManyToolCalls

fun Error :: "error \<Rightarrow> string" where
  "Error (ClientError e) = e"
| "Error EmptyTitleResponse = ''empty response from OpenAI for title generation''"
| "Error NoMessages = ''conversation has no messages''"
| "Error NoChoices = ''no choices returned by OpenAI''"
| "Error (UnknownToolCall name) = ''unknown tool call: '' @ name"
| "Error TooManyToolCalls = ''too many tool calls, unable to generate reply''"

text \<open>
  What an invocation does to the outside is recorded as a trace, in order: each backend
  call with its request and its answer, and each tool call taken from a response (the
  point where the source logs "Tool call received").
\<close>

datatype event =
    BackendCall chat_params "string + chat_completion"
  | ToolCallReceived tool_call

fun backend_calls :: "event list \<Rightarrow> nat" where
  "backend_calls [] = 0"
| "backend_calls (BackendCall p r # t) = Suc (backend_calls t)"
| "backend_calls (ToolCallReceived c # t) = backend_calls t"

fun tool_dispatches :: "event list \<Rightarrow> nat" where
  "tool_dispatches [] = 0"
| "tool_dispatches (BackendCall p r # t) = tool_dispatches t"
| "tool_dispatches (ToolCallReceived c # t) = Suc (tool_dispatches t)"

section \<open>String functions of the Go library\<close>

definition asciiSpace :: "char \<Rightarrow> bool" where
  "asciiSpace c = (c = CHR 0x09 \<or> c = CHR 0x0A \<or> c = CHR 0x0B \<or> c = CHR 0x0C
     \<or> c = CHR 0x0D \<or> c = CHR 0x20)"

text \<open>The two-byte UTF-8 encodings of white space: U+0085 and U+00A0.\<close>

definition space2 :: "char \<Rightarrow> char \<Rightarrow> bool" where
  "space2 a b = (a = CHR 0xC2 \<and> (b = CHR 0x85 \<or> b = CHR 0xA0))"

text \<open>
  The three-byte ones: U+1680, U+2000 to U+200A, U+2028, U+2029, U+202F, U+205F, U+3000.
\<close>

definition space3 :: "char \<Rightarrow> char \<Rightarrow> char \<Rightarrow> bool" where
  "space3 a b c =
     ((a = CHR 0xE1 \<and> b = CHR 0x9A \<and> c = CHR 0x80)
    \<or> (a = CHR 0xE2 \<and> b = CHR 0x80
         \<and> ((0x80 \<le> (of_char c :: nat) \<and> (of_char c :: nat) \<le> 0x8A)
            \<or> c = CHR 0xA8 \<or> c = CHR 0xA9 \<or> c = CHR 0xAF))
    \<or> (a = CHR 0xE2 \<and> b = CHR 0x81 \<and> c = CHR 0x9F)
    \<or> (a = CHR 0xE3 \<and> b = CHR 0x80 \<and> c = CHR 0x80))"

text \<open>
  \<open>strings.TrimSpace(s) == ""\<close>: the string is nothing but white space, that is, a
  sequence of UTF-8 encodings of characters for which \<open>unicode.IsSpace\<close> holds.
\<close>

fun TrimSpace_empty :: "string \<Rightarrow> bool" where
  "TrimSpace_empty [] = True"
| "TrimSpace_empty [a] = asciiSpace a"
| "TrimSpace_empty [a, b] = (if asciiSpace a then TrimSpace_empty [b] else space2 a b)"
| "TrimSpace_empty (a # b # c # s) =
     (if asciiSpace a then TrimSpace_empty (b # c # s)
      else if space2 a b then TrimSpace_empty (c # s)
      else if space3 a b c then TrimSpace_empty s
      else False)"

text \<open>
  \<open>strings.ReplaceAll\<close> for a one-byte pattern and a one-byte replacement, and
  \<open>strings.Trim\<close> for a cutset of ASCII characters: both work byte by byte.
\<close>

definition ReplaceAll :: "string \<Rightarrow> char \<Rightarrow> char \<Rightarrow> string" where
  "ReplaceAll s old new = map (\<lambda>c. if c = old then new else c) s"

definition Trim :: "string \<Rightarrow> string \<Rightarrow> string" where
  "Trim s cutset =
     dropWhile (\<lambda>c. c \<in> set cutset) (rev (dropWhile (\<lambda>c. c \<in> set cutset) (rev s)))"

text \<open>\<open>strings.Join\<close> (used for the list of holidays).\<close>

fun Join :: "string list \<Rightarrow> string \<Rightarrow> string" where
  "Join [] sep = []"
| "Join [x] sep = x"
| "Join (x # y # xs) sep = x @ sep @ Join (y # xs) sep"

section \<open>Title\<close>

definition title_prompt :: string where
  "title_prompt = ''You are a title generator. Extract the main topic from the user's message and create a short, descriptive title. Do NOT answer the question. Examples: 'What is the weather like in Barcelona?' ''
     @ [CHR 0xE2, CHR 0x86, CHR 0x92]
     @ '' 'Weather in Barcelona'. Maximum 80 characters, no quotes.''"

definition title_cutset :: string where
  "title_cutset = [CHR 0x20, CHR 0x09, CHR 0x0D, CHR 0x0A, CHR ''-'', CHR 0x22, CHR 0x27]"

text \<open>The post-processing of a title: lines 56 to 62 of \<open>Title\<close>.\<close>

definition clean_title :: "string \<Rightarrow> string" where
  "clean_title content =
     (let title = ReplaceAll content (CHR 0x0A) (CHR 0x20);
          title = Trim title title_cutset
      in if length title > 80 then take 80 title else title)"

definition title_params :: "Conversation \<Rightarrow> chat_params" where
  "title_params conv =
     \<lparr>p_Model = ChatModelGPT4o,
      p_Messages = SystemMessage title_prompt # map (\<lambda>m. UserMessage (m_Content m)) (Messages conv),
      p_Tools = []\<rparr>"

definition Title :: "'w completions \<Rightarrow> Conversation \<Rightarrow> 'w \<Rightarrow> (error + string) \<times> 'w \<times> event list" where
  "Title cli conv w =
     (if length (Messages conv) = 0 then (Inr ''An empty conversation'', w, [])
      else
        (case cli (title_params conv) w of
           (Inl err, w') \<Rightarrow> (Inl (ClientError err), w', [BackendCall (title_params conv) (Inl err)])
         | (Inr resp, w') \<Rightarrow>
             (case Choices resp of
                [] \<Rightarrow> (Inl EmptyTitleResponse, w', [BackendCall (title_params conv) (Inr resp)])
              | choice # rest \<Rightarrow>
                  if TrimSpace_empty (msg_Content choice)
                  then (Inl EmptyTitleResponse, w', [BackendCall (title_params conv) (Inr resp)])
                  else (Inr (clean_title (msg_Content choice)), w',
                        [BackendCall (title_params conv) (Inr resp)]))))"

section \<open>Reply, with the tool calls handled in place\<close>

text \<open>
  \<open>Reply\<close> of \<open>internal/chat/assistant/assistant.go\<close>. What it reaches outside the
  program is collected in the record \<open>Assistant\<close>: the backend client, the weather
  client's two requests, the calendar download, the clock (already formatted as RFC 3339),
  the process environment, and the library's JSON decoding and float formatting, which are
  taken as given functions. Errors of these are kept as their texts.
\<close>

typedecl CurrentWeatherResponse
typedecl ForecastWeatherResponse

record weatherArgs =
  Location :: string
  ForecastDays :: int

text \<open>
  Instants are integers with 0 for Go's zero \<open>time.Time\<close>, so \<open>IsZero\<close> is \<open>= 0\<close>,
  \<open>After\<close> is \<open>>\<close> and \<open>Before\<close> is \<open><\<close>.
\<close>

record holidayPayload =
  BeforeDate :: int
  AfterDate :: int
  MaxCount :: int

record VEvent =
  GetAllDayStartAt :: "string + int"
  Summary :: string

record 'w Assistant =
  cli :: "'w completions"
  GetCurrentWeather :: "string \<Rightarrow> 'w \<Rightarrow> (string + CurrentWeatherResponse) \<times> 'w"
  GetForecast :: "string \<Rightarrow> int \<Rightarrow> 'w \<Rightarrow> (string + ForecastWeatherResponse) \<times> 'w"
  FormatCurrentWeather :: "CurrentWeatherResponse \<Rightarrow> string"
  FormatForecast :: "ForecastWeatherResponse \<Rightarrow> string"
  Unmarshal_weatherArgs :: "string \<Rightarrow> string + weatherArgs"
  Unmarshal_payload :: "string \<Rightarrow> string + holidayPayload"
  Now_RFC3339 :: "'w \<Rightarrow> string \<times> 'w"
  Getenv :: "string \<Rightarrow> 'w \<Rightarrow> string"
  LoadCalendar :: "string \<Rightarrow> 'w \<Rightarrow> (string + VEvent list) \<times> 'w"
  Format_DateOnly :: "int \<Rightarrow> string"

definition reply_prompt :: string where
  "reply_prompt = ''You are a helpful, concise AI assistant. Provide accurate, safe, and clear responses.''"

text \<open>The history the loop starts from: messages of any other role are skipped.\<close>

fun seed_messages :: "Message list \<Rightarrow> chat_message_param list" where
  "seed_messages [] = []"
| "seed_messages (m # ms) =
     (if m_Role m = RoleUser then UserMessage (m_Content m) # seed_messages ms
      else if m_Role m = RoleAssistant then AssistantMessage (m_Content m) # seed_messages ms
      else seed_messages ms)"

definition reply_tools :: "string list" where
  "reply_tools = [''get_weather'', ''get_today_date'', ''get_holidays'']"

definition reply_params :: "chat_message_param list \<Rightarrow> chat_params" where
  "reply_params msgs = \<lparr>p_Model = ChatModelGPT4_1, p_Messages = msgs, p_Tools = reply_tools\<rparr>"

text \<open>The loop over the calendar's events, with its \<open>continue\<close> and \<open>break\<close>.\<close>

fun holidays_loop :: "(int \<Rightarrow> string) \<Rightarrow> holidayPayload \<Rightarrow> VEvent list \<Rightarrow> string list \<Rightarrow> string list" where
  "holidays_loop fmt payload [] holidays = holidays"
| "holidays_loop fmt payload (event # events) holidays =
     (case GetAllDayStartAt event of
        Inl err \<Rightarrow> holidays_loop fmt payload events holidays
      | Inr date \<Rightarrow>
          if MaxCount payload > 0 \<and> int (length holidays) \<ge> MaxCount payload then holidays
          else if BeforeDate payload \<noteq> 0 \<and> date > BeforeDate payload
          then holidays_loop fmt payload events holidays
          else if AfterDate payload \<noteq> 0 \<and> date < AfterDate payload
          then holidays_loop fmt payload events holidays
          else holidays_loop fmt payload events (holidays @ [fmt date @ '': '' @ Summary event]))"

definition default_calendar_link :: string where
  "default_calendar_link = ''https://www.officeholidays.com/ics/spain/catalonia''"

definition calendar_link :: "'w Assistant \<Rightarrow> 'w \<Rightarrow> string" where
  "calendar_link a w =
     (if Getenv a ''HOLIDAY_CALENDAR_LINK'' w \<noteq> []
      then Getenv a ''HOLIDAY_CALENDAR_LINK'' w else default_calendar_link)"

text \<open>
  The \<open>switch call.Function.Name\<close> of one tool call. A \<open>break\<close> leaves the switch only,
  so the case ends with the message appended; the \<open>default\<close> case returns from
  \<open>Reply\<close> with an error.
\<close>

definition tool_call_switch ::
  "'w Assistant \<Rightarrow> tool_call \<Rightarrow> chat_message_param list \<Rightarrow> 'w
     \<Rightarrow> (error + chat_message_param list) \<times> 'w" where
  "tool_call_switch a call msgs w =
     (if Function_Name call = ''get_weather'' then
        (case Unmarshal_weatherArgs a (Function_Arguments call) of
           Inl err \<Rightarrow>
             (Inr (msgs @ [ToolMessage (''failed to parse weather request: '' @ err) (call_ID call)]), w)
         | Inr args \<Rightarrow>
             if ForecastDays args > 0 then
               (case GetForecast a (Location args) (ForecastDays args) w of
                  (Inl err, w') \<Rightarrow>
                    (Inr (msgs @ [ToolMessage (''Failed to fetch weather forecast: '' @ err) (call_ID call)]), w')
                | (Inr forecast, w') \<Rightarrow>
                    (Inr (msgs @ [ToolMessage (FormatForecast a forecast) (call_ID call)]), w'))
             else
               (case GetCurrentWeather a (Location args) w of
                  (Inl err, w') \<Rightarrow>
                    (Inr (msgs @ [ToolMessage (''Failed to fetch weather: '' @ err) (call_ID call)]), w')
                | (Inr weather, w') \<Rightarrow>
                    (Inr (msgs @ [ToolMessage (FormatCurrentWeather a weather) (call_ID call)]), w')))
      else if Function_Name call = ''get_today_date'' then
        (case Now_RFC3339 a w of
           (now, w') \<Rightarrow> (Inr (msgs @ [ToolMessage now (call_ID call)]), w'))
      else if Function_Name call = ''get_holidays'' then
        (case LoadCalendar a (calendar_link a w) w of
              (Inl err, w') \<Rightarrow>
                (Inr (msgs @ [ToolMessage ''failed to load holiday events'' (call_ID call)]), w')
            | (Inr events, w') \<Rightarrow>
                (case Unmarshal_payload a (Function_Arguments call) of
                   Inl err \<Rightarrow>
                     (Inr (msgs @ [ToolMessage (''failed to parse tool call arguments: '' @ err) (call_ID call)]), w')
                 | Inr payload \<Rightarrow>
                     (Inr (msgs @ [ToolMessage
                        (Join (holidays_loop (Format_DateOnly a) payload events []) [CHR 0x0A])
                        (call_ID call)]), w')))
      else (Inl (UnknownToolCall (Function_Name call)), w))"

text \<open>\<open>for _, call := range message.ToolCalls\<close>: it stops at the first error.\<close>

fun tool_calls_loop ::
  "'w Assistant \<Rightarrow> tool_call list \<Rightarrow> chat_message_param list \<Rightarrow> 'w
     \<Rightarrow> (error + chat_message_param list) \<times> 'w \<times> event list" where
  "tool_calls_loop a [] msgs w = (Inr msgs, w, [])"
| "tool_calls_loop a (call # calls) msgs w =
     (case tool_call_switch a call msgs w of
        (Inl e, w') \<Rightarrow> (Inl e, w', [ToolCallReceived call])
      | (Inr msgs', w') \<Rightarrow>
          (case tool_calls_loop a calls msgs' w' of
             (r, w'', t) \<Rightarrow> (r, w'', ToolCallReceived call # t)))"

text \<open>
  \<open>for i := 0; i < 15; i++\<close>, counted by the iterations that remain (the body does not
  read \<open>i\<close>): with none left the loop falls through to the error after it.
\<close>

fun Reply_loop ::
  "'w Assistant \<Rightarrow> nat \<Rightarrow> chat_message_param list \<Rightarrow> 'w \<Rightarrow> (error + string) \<times> 'w \<times> event list" where
  "Reply_loop a 0 msgs w = (Inl TooManyToolCalls, w, [])"
| "Reply_loop a (Suc n) msgs w =
     (case cli a (reply_params msgs) w of
        (Inl err, w1) \<Rightarrow> (Inl (ClientError err), w1, [BackendCall (reply_params msgs) (Inl err)])
      | (Inr resp, w1) \<Rightarrow>
          (case Choices resp of
             [] \<Rightarrow> (Inl NoChoices, w1, [BackendCall (reply_params msgs) (Inr resp)])
           | message # rest \<Rightarrow>
               if length (msg_ToolCalls message) > 0 then
                 (case tool_calls_loop a (msg_ToolCalls message)
                         (msgs @ [ToParam (msg_Content message) (msg_ToolCalls message)]) w1 of
                    (Inl e, w2, t) \<Rightarrow> (Inl e, w2, BackendCall (reply_params msgs) (Inr resp) # t)
                  | (Inr msgs', w2, t) \<Rightarrow>
                      (case Reply_loop a n msgs' w2 of
                         (r, w3, t') \<Rightarrow> (r, w3, BackendCall (reply_params msgs) (Inr resp) # t @ t')))
               else (Inr (msg_Content message), w1, [BackendCall (reply_params msgs) (Inr resp)])))"

definition Reply :: "'w Assistant \<Rightarrow> Conversation \<Rightarrow> 'w \<Rightarrow> (error + string) \<times> 'w \<times> event list" where
  "Reply a conv w =
     (if length (Messages conv) = 0 then (Inl NoMessages, w, [])
      else Reply_loop a 15 (SystemMessage reply_prompt # seed_messages (Messages conv)) w)"

section \<open>Reply, with the tool calls dispatched to registered tools\<close>

text \<open>
  Package \<open>tools\<close>: a tool has a name and a handler (its definition is advertised by
  name); \<open>Dispatch\<close> picks the name and arguments by the call's type and runs the first
  tool of that name. It always returns a tool message.
\<close>

record 'w Tool =
  Name :: string
  Handle :: "string \<Rightarrow> 'w \<Rightarrow> (string + string) \<times> 'w"

definition Definitions :: "'w Tool list \<Rightarrow> string list" where
  "Definitions ts = map Name ts"

fun Dispatch_scan ::
  "'w Tool list \<Rightarrow> string \<Rightarrow> string \<Rightarrow> string \<Rightarrow> 'w \<Rightarrow> chat_message_param \<times> 'w" where
  "Dispatch_scan [] functionName arguments ident w =
     (ToolMessage (''Unknown tool: '' @ functionName) ident, w)"
| "Dispatch_scan (tool # ts) functionName arguments ident w =
     (if Name tool = functionName then
        (case Handle tool arguments w of
           (Inl err, w') \<Rightarrow> (ToolMessage (''Tool failed: '' @ err) ident, w')
         | (Inr result, w') \<Rightarrow> (ToolMessage result ident, w'))
      else Dispatch_scan ts functionName arguments ident w)"

definition Dispatch :: "'w Tool list \<Rightarrow> tool_call \<Rightarrow> 'w \<Rightarrow> chat_message_param \<times> 'w" where
  "Dispatch ts call w =
     (if call_Type call = ''function''
      then Dispatch_scan ts (Function_Name call) (Function_Arguments call) (call_ID call) w
      else if call_Type call = ''custom''
      then Dispatch_scan ts (Custom_Name call) (Custom_Input call) (call_ID call) w
      else (ToolMessage (''Unknown tool call type: '' @ call_Type call) (call_ID call), w))"

text \<open>
  The assistant that is built on the registry, and its \<open>Reply\<close>: the same loop, with
  every tool call answered by \<open>Dispatch\<close>.
\<close>

record 'w ToolAssistant =
  tcli :: "'w completions"
  tools :: "'w Tool list"

definition dispatch_params :: "'w ToolAssistant \<Rightarrow> chat_message_param list \<Rightarrow> chat_params" where
  "dispatch_params a msgs =
     \<lparr>p_Model = ChatModelGPT4_1, p_Messages = msgs, p_Tools = Definitions (tools a)\<rparr>"

fun Dispatch_loop ::
  "'w ToolAssistant \<Rightarrow> tool_call list \<Rightarrow> chat_message_param list \<Rightarrow> 'w
     \<Rightarrow> chat_message_param list \<times> 'w \<times> event list" where
  "Dispatch_loop a [] msgs w = (msgs, w, [])"
| "Dispatch_loop a (call # calls) msgs w =
     (case Dispatch (tools a) call w of
        (m, w') \<Rightarrow>
          (case Dispatch_loop a calls (msgs @ [m]) w' of
             (msgs', w'', t) \<Rightarrow> (msgs', w'', ToolCallReceived call # t)))"

fun Reply_Dispatch_loop ::
  "'w ToolAssistant \<Rightarrow> nat \<Rightarrow> chat_message_param list \<Rightarrow> 'w \<Rightarrow> (error + string) \<times> 'w \<times> event list" where
  "Reply_Dispatch_loop a 0 msgs w = (Inl TooManyToolCalls, w, [])"
| "Reply_Dispatch_loop a (Suc n) msgs w =
     (case tcli a (dispatch_params a msgs) w of
        (Inl err, w1) \<Rightarrow> (Inl (ClientError err), w1, [BackendCall (dispatch_params a msgs) (Inl err)])
      | (Inr resp, w1) \<Rightarrow>
          (case Choices resp of
             [] \<Rightarrow> (Inl NoChoices, w1, [BackendCall (dispatch_params a msgs) (Inr resp)])
           | message # rest \<Rightarrow>
               if length (msg_ToolCalls message) > 0 then
                 (case Dispatch_loop a (msg_ToolCalls message)
                         (msgs @ [ToParam (msg_Content message) (msg_ToolCalls message)]) w1 of
                    (msgs', w2, t) \<Rightarrow>
                      (case Reply_Dispatch_loop a n msgs' w2 of
                         (r, w3, t') \<Rightarrow>
                           (r, w3, BackendCall (dispatch_params a msgs) (Inr resp) # t @ t')))
               else (Inr (msg_Content message), w1, [BackendCall (dispatch_params a msgs) (Inr resp)])))"

definition Reply_Dispatch ::
  "'w ToolAssistant \<Rightarrow> Conversation \<Rightarrow> 'w \<Rightarrow> (error + string) \<times> 'w \<times> event list" where
  "Reply_Dispatch a conv w =
     (if length (Messages conv) = 0 then (Inl NoMessages, w, [])
      else Reply_Dispatch_loop a 15 (SystemMessage reply_prompt # seed_messages (Messages conv)) w)"

section \<open>The coordinator of title and reply\<close>

text \<open>
  Modelled from the spec: the function that starts a conversation (\<open>StartConversation\<close>
  of the chat server) is not among the sources; only its tests are. Following the
  specification of the coordinator, the title task and the reply task are two functions of
  the same conversation snapshot whose outcomes are joined: a failed reply fails the
  operation with the reply's error, a failed title is replaced by the default title. The
  default title is the one the server's tests expect.
\<close>

definition defaultTitle :: string where
  "defaultTitle = ''Untitled conversation''"

definition generate_title_and_reply ::
  "(Conversation \<Rightarrow> 'e + string) \<Rightarrow> (Conversation \<Rightarrow> 'e + string) \<Rightarrow> Conversation
     \<Rightarrow> 'e + string \<times> string" where
  "generate_title_and_reply titleFunc replyFunc conv =
     (let title = titleFunc conv; reply = replyFunc conv
      in case reply of
           Inl err \<Rightarrow> Inl err
         | Inr text \<Rightarrow> Inr (case title of Inl err \<Rightarrow> defaultTitle | Inr t \<Rightarrow> t, text))"

text \<open>The two task outcomes the server's test of a failing title uses.\<close>

definition titleError :: "Conversation \<Rightarrow> string + string" where
  "titleError conv = Inl ''simulated title generation error''"

definition replyWorks :: "Conversation \<Rightarrow> string + string" where
  "replyWorks conv = Inr ''Assistant reply works fine''"

section \<open>Reading a trace\<close>

text \<open>A tool call names a registered capability when the switch of \<open>Reply\<close> has a case for it.\<close>

definition registered :: "tool_call \<Rightarrow> bool" where
  "registered call = (Function_Name call \<in> set reply_tools)"

text \<open>
  Tool results answer a list of tool calls when there is one tool message per call, in the
  calls' order, each carrying its call's id.
\<close>

fun correlated :: "tool_call list \<Rightarrow> chat_message_param list \<Rightarrow> bool" where
  "correlated [] [] = True"
| "correlated (call # calls) (ToolMessage content ident # ms) =
     (ident = call_ID call \<and> correlated calls ms)"
| "correlated calls ms = False"





text \<open>
  The runs in which the backend asks for tools on every round-trip: every backend call of
  the trace is answered, and its first choice carries tool calls. For the switch of
  \<open>Reply\<close> the tools asked for are among the registered ones.
\<close>

fun asks_for_tools :: "event \<Rightarrow> bool" where
  "asks_for_tools (BackendCall p (Inl err)) = False"
| "asks_for_tools (BackendCall p (Inr resp)) =
     (case Choices resp of [] \<Rightarrow> False | message # rest \<Rightarrow> msg_ToolCalls message \<noteq> [])"
| "asks_for_tools (ToolCallReceived call) = True"

fun asks_for_registered_tools :: "event \<Rightarrow> bool" where
  "asks_for_registered_tools (BackendCall p r) = asks_for_tools (BackendCall p r)"
| "asks_for_registered_tools (ToolCallReceived call) = registered call"

section \<open>Concrete environments\<close>

text \<open>
  A backend that answers from a script, one entry per call; one that asks for the date on
  every call; an assistant whose weather service and calendar are unreachable (its stand-in
  for the JSON decoder fails on the empty string, takes any other string as the location,
  and reads a leading \<open>F\<close> as a request for a three-day forecast); the same assistant
  with a calendar of one event; and a registry of two tools, one of which always fails.
\<close>

definition scripted :: "(string + chat_completion) list completions" where
  "scripted p w = (case w of [] \<Rightarrow> (Inl ''script exhausted'', []) | r # rs \<Rightarrow> (r, rs))"

definition plain_text :: "string \<Rightarrow> string + chat_completion" where
  "plain_text s = Inr \<lparr>Choices = [\<lparr>msg_Content = s, msg_ToolCalls = []\<rparr>]\<rparr>"

definition function_call :: "string \<Rightarrow> string \<Rightarrow> string \<Rightarrow> tool_call" where
  "function_call ident name args =
     \<lparr>call_ID = ident, call_Type = ''function'', Function_Name = name,
      Function_Arguments = args, Custom_Name = [], Custom_Input = []\<rparr>"

definition asks :: "tool_call list \<Rightarrow> string + chat_completion" where
  "asks calls = Inr \<lparr>Choices = [\<lparr>msg_Content = [], msg_ToolCalls = calls\<rparr>]\<rparr>"

definition keeps_asking :: "nat completions" where
  "keeps_asking p w = (asks [function_call ''call_1'' ''get_today_date'' []], Suc w)"

definition one_message :: Conversation where
  "one_message = \<lparr>Messages = [\<lparr>m_Role = RoleUser, m_Content = ''Test message''\<rparr>]\<rparr>"

definition offline :: "'w completions \<Rightarrow> 'w Assistant" where
  "offline complete =
     \<lparr>cli = complete,
      GetCurrentWeather = (\<lambda>location w. (Inl ''weather API returned status 503'', w)),
      GetForecast = (\<lambda>location days w. (Inl ''weather API returned status 503'', w)),
      FormatCurrentWeather = (\<lambda>r. []),
      FormatForecast = (\<lambda>r. []),
      Unmarshal_weatherArgs = (\<lambda>s. if s = [] then Inl ''unexpected end of JSON input''
                                     else Inr \<lparr>Location = s,
                                               ForecastDays = (if hd s = CHR ''F'' then 3 else 0)\<rparr>),
      Unmarshal_payload = (\<lambda>s. if s = [] then Inl ''unexpected end of JSON input''
                                 else Inr \<lparr>BeforeDate = 0, AfterDate = 0, MaxCount = 0\<rparr>),
      Now_RFC3339 = (\<lambda>w. (''2025-01-01T00:00:00Z'', w)),
      Getenv = (\<lambda>key w. []),
      LoadCalendar = (\<lambda>link w. (Inl ''no network'', w)),
      Format_DateOnly = (\<lambda>d. [])\<rparr>"



definition clock_tool :: "'w Tool" where
  "clock_tool =
     \<lparr>Name = ''get_today_date'', Handle = (\<lambda>args w. (Inr ''2025-01-01T00:00:00Z'', w))\<rparr>"

definition broken_tool :: "'w Tool" where
  "broken_tool =
     \<lparr>Name = ''get_weather'',
      Handle = (\<lambda>args w. (Inl ''invalid weather parameters: unexpected end of JSON input'', w))\<rparr>"

definition registry :: "'w completions \<Rightarrow> 'w ToolAssistant" where
  "registry complete = \<lparr>tcli = complete, tools = [broken_tool, clock_tool]\<rparr>"

section \<open>The loops, case by case\<close>

lemma backend_calls_append: "backend_calls (t @ t') = backend_calls t + backend_calls t'"
  by (induction t rule: backend_calls.induct) simp_all

lemma backend_calls_received: "backend_calls (map ToolCallReceived calls) = 0"
  by (induction calls) simp_all


lemma tool_call_switch_cases:
  assumes "tool_call_switch a call msgs w = (r, w')"
  shows "(\<not> registered call \<and> r = Inl (UnknownToolCall (Function_Name call)) \<and> w' = w)
       \<or> (registered call \<and> (\<exists>content. r = Inr (msgs @ [ToolMessage content (call_ID call)])))"
  using assms
  by (auto simp: tool_call_switch_def registered_def reply_tools_def Let_def
           split: if_splits sum.splits prod.splits)

lemma tool_calls_loop_Inr:
  "tool_calls_loop a calls msgs w = (Inr msgs', w', t) \<Longrightarrow>
     take (length msgs) msgs' = msgs \<and> correlated calls (drop (length msgs) msgs')
     \<and> t = map ToolCallReceived calls \<and> list_all registered calls"
proof (induction calls arbitrary: msgs w w' t)
  case Nil
  then show ?case by simp
next
  case (Cons call calls)
  obtain r1 w1 where s: "tool_call_switch a call msgs w = (r1, w1)"
    by (cases "tool_call_switch a call msgs w")
  from tool_call_switch_cases [OF s] Cons.prems s
  obtain content where r1: "r1 = Inr (msgs @ [ToolMessage content (call_ID call)])"
    and reg: "registered call"
    by (auto split: prod.splits)
  obtain r2 w2 t2 where l: "tool_calls_loop a calls (msgs @ [ToolMessage content (call_ID call)]) w1 = (r2, w2, t2)"
    by (cases "tool_calls_loop a calls (msgs @ [ToolMessage content (call_ID call)]) w1")
  from Cons.prems s r1 l have r2: "r2 = Inr msgs'" and t: "t = ToolCallReceived call # t2"
    by simp_all
  from Cons.IH [OF l [unfolded r2]]
  have ih: "take (Suc (length msgs)) msgs' = msgs @ [ToolMessage content (call_ID call)]"
    "correlated calls (drop (Suc (length msgs)) msgs')"
    "t2 = map ToolCallReceived calls" "list_all registered calls"
    by simp_all
  from ih(1) have m: "msgs' = (msgs @ [ToolMessage content (call_ID call)]) @ drop (Suc (length msgs)) msgs'"
    by (metis append_take_drop_id)
  have "take (length msgs) msgs' = msgs"
    by (subst m) simp
  moreover have "drop (length msgs) msgs' = ToolMessage content (call_ID call) # drop (Suc (length msgs)) msgs'"
    by (subst m) simp
  ultimately show ?case using ih t reg by simp
qed

lemma tool_calls_loop_Inl:
  "tool_calls_loop a calls msgs w = (Inl e, w', t) \<Longrightarrow>
     \<exists>known call. t = map ToolCallReceived known @ [ToolCallReceived call]
       \<and> list_all registered known \<and> \<not> registered call
       \<and> e = UnknownToolCall (Function_Name call)"
proof (induction calls arbitrary: msgs w w' t)
  case Nil
  then show ?case by simp
next
  case (Cons call calls)
  obtain r1 w1 where s: "tool_call_switch a call msgs w = (r1, w1)"
    by (cases "tool_call_switch a call msgs w")
  from tool_call_switch_cases [OF s]
  show ?case
  proof (elim disjE conjE exE)
    assume "\<not> registered call" "r1 = Inl (UnknownToolCall (Function_Name call))"
    with Cons.prems s have "t = map ToolCallReceived [] @ [ToolCallReceived call]"
      "e = UnknownToolCall (Function_Name call)" by simp_all
    moreover have "list_all registered []" by simp
    ultimately show ?thesis using \<open>\<not> registered call\<close> by blast
  next
    fix content
    assume reg: "registered call" and r1: "r1 = Inr (msgs @ [ToolMessage content (call_ID call)])"
    obtain r2 w2 t2 where l: "tool_calls_loop a calls (msgs @ [ToolMessage content (call_ID call)]) w1 = (r2, w2, t2)"
      by (cases "tool_calls_loop a calls (msgs @ [ToolMessage content (call_ID call)]) w1")
    from Cons.prems s r1 l have r2: "r2 = Inl e" and t: "t = ToolCallReceived call # t2"
      by simp_all
    from Cons.IH [OF l [unfolded r2]] obtain known c where
      k: "t2 = map ToolCallReceived known @ [ToolCallReceived c]" "list_all registered known"
         "\<not> registered c" "e = UnknownToolCall (Function_Name c)" by blast
    have "t = map ToolCallReceived (call # known) @ [ToolCallReceived c]"
      using t k(1) by simp
    moreover have "list_all registered (call # known)" using reg k(2) by simp
    ultimately show ?thesis using k(3,4) by blast
  qed
qed

lemma Dispatch_scan_message:
  "\<exists>content w'. Dispatch_scan ts name args ident w = (ToolMessage content ident, w')"
  by (induction ts) (auto split: prod.splits sum.splits)

lemma Dispatch_message:
  "\<exists>content w'. Dispatch ts call w = (ToolMessage content (call_ID call), w')"
  using Dispatch_scan_message [of ts _ _ "call_ID call" w]
  by (simp add: Dispatch_def)

lemma Dispatch_loop_results:
  "Dispatch_loop b calls msgs w = (msgs', w', t) \<Longrightarrow>
     take (length msgs) msgs' = msgs \<and> correlated calls (drop (length msgs) msgs')
     \<and> t = map ToolCallReceived calls"
proof (induction calls arbitrary: msgs w w' t)
  case Nil
  then show ?case by simp
next
  case (Cons call calls)
  obtain content w1 where d: "Dispatch (tools b) call w = (ToolMessage content (call_ID call), w1)"
    using Dispatch_message [of "tools b" call w] by blast
  obtain m2 w2 t2 where l: "Dispatch_loop b calls (msgs @ [ToolMessage content (call_ID call)]) w1 = (m2, w2, t2)"
    by (cases "Dispatch_loop b calls (msgs @ [ToolMessage content (call_ID call)]) w1")
  from Cons.prems d l have m2: "m2 = msgs'" and t: "t = ToolCallReceived call # t2"
    by simp_all
  from Cons.IH [OF l [unfolded m2]]
  have ih: "take (Suc (length msgs)) msgs' = msgs @ [ToolMessage content (call_ID call)]"
    "correlated calls (drop (Suc (length msgs)) msgs')"
    "t2 = map ToolCallReceived calls"
    by simp_all
  from ih(1) have m: "msgs' = (msgs @ [ToolMessage content (call_ID call)]) @ drop (Suc (length msgs)) msgs'"
    by (metis append_take_drop_id)
  have "take (length msgs) msgs' = msgs"
    by (subst m) simp
  moreover have "drop (length msgs) msgs' = ToolMessage content (call_ID call) # drop (Suc (length msgs)) msgs'"
    by (subst m) simp
  ultimately show ?case using ih t by simp
qed


lemma Reply_loop_Suc_cases:
  assumes "Reply_loop a (Suc n) msgs w = (r, w', t)"
  obtains
    (client_error) err where
      "cli a (reply_params msgs) w = (Inl err, w')" "r = Inl (ClientError err)"
      "t = [BackendCall (reply_params msgs) (Inl err)]"
  | (no_choices) resp where
      "cli a (reply_params msgs) w = (Inr resp, w')" "Choices resp = []" "r = Inl NoChoices"
      "t = [BackendCall (reply_params msgs) (Inr resp)]"
  | (plain) resp message rest where
      "cli a (reply_params msgs) w = (Inr resp, w')" "Choices resp = message # rest"
      "msg_ToolCalls message = []" "r = Inr (msg_Content message)"
      "t = [BackendCall (reply_params msgs) (Inr resp)]"
  | (failed) resp message rest w1 e t1 where
      "cli a (reply_params msgs) w = (Inr resp, w1)" "Choices resp = message # rest"
      "msg_ToolCalls message \<noteq> []"
      "tool_calls_loop a (msg_ToolCalls message)
         (msgs @ [ToParam (msg_Content message) (msg_ToolCalls message)]) w1 = (Inl e, w', t1)"
      "r = Inl e" "t = BackendCall (reply_params msgs) (Inr resp) # t1"
  | (again) resp message rest w1 msgs' w2 t1 t2 where
      "cli a (reply_params msgs) w = (Inr resp, w1)" "Choices resp = message # rest"
      "msg_ToolCalls message \<noteq> []"
      "tool_calls_loop a (msg_ToolCalls message)
         (msgs @ [ToParam (msg_Content message) (msg_ToolCalls message)]) w1 = (Inr msgs', w2, t1)"
      "Reply_loop a n msgs' w2 = (r, w', t2)"
      "t = BackendCall (reply_params msgs) (Inr resp) # t1 @ t2"
proof -
  obtain r0 w1 where c: "cli a (reply_params msgs) w = (r0, w1)"
    by (cases "cli a (reply_params msgs) w")
  show thesis
  proof (cases r0)
    case (Inl err)
    with assms c client_error show thesis by simp
  next
    case (Inr resp)
    show thesis
    proof (cases "Choices resp")
      case Nil
      with assms c Inr no_choices show thesis by simp
    next
      case (Cons message rest)
      show thesis
      proof (cases "msg_ToolCalls message = []")
        case True
        with assms c Inr Cons plain show thesis by simp
      next
        case False
        obtain r1 w2 t1 where l: "tool_calls_loop a (msg_ToolCalls message)
           (msgs @ [ToParam (msg_Content message) (msg_ToolCalls message)]) w1 = (r1, w2, t1)"
          by (cases "tool_calls_loop a (msg_ToolCalls message)
           (msgs @ [ToParam (msg_Content message) (msg_ToolCalls message)]) w1")
        show thesis
        proof (cases r1)
          case (Inl e)
          with assms c Inr Cons False l failed show thesis by simp
        next
          case r1: (Inr msgs')
          obtain r3 w3 t2 where n: "Reply_loop a n msgs' w2 = (r3, w3, t2)"
            by (cases "Reply_loop a n msgs' w2")
          with assms c Inr Cons False l r1 have "r = r3" "w' = w3"
            "t = BackendCall (reply_params msgs) (Inr resp) # t1 @ t2" by simp_all
          with again [OF c [unfolded Inr] Cons False l [unfolded r1]] n show thesis by simp
        qed
      qed
    qed
  qed
qed

lemma Reply_Dispatch_loop_Suc_cases:
  assumes "Reply_Dispatch_loop b (Suc n) msgs w = (r, w', t)"
  obtains
    (client_error) err where
      "tcli b (dispatch_params b msgs) w = (Inl err, w')" "r = Inl (ClientError err)"
      "t = [BackendCall (dispatch_params b msgs) (Inl err)]"
  | (no_choices) resp where
      "tcli b (dispatch_params b msgs) w = (Inr resp, w')" "Choices resp = []" "r = Inl NoChoices"
      "t = [BackendCall (dispatch_params b msgs) (Inr resp)]"
  | (plain) resp message rest where
      "tcli b (dispatch_params b msgs) w = (Inr resp, w')" "Choices resp = message # rest"
      "msg_ToolCalls message = []" "r = Inr (msg_Content message)"
      "t = [BackendCall (dispatch_params b msgs) (Inr resp)]"
  | (again) resp message rest w1 msgs' w2 t1 t2 where
      "tcli b (dispatch_params b msgs) w = (Inr resp, w1)" "Choices resp = message # rest"
      "msg_ToolCalls message \<noteq> []"
      "Dispatch_loop b (msg_ToolCalls message)
         (msgs @ [ToParam (msg_Content message) (msg_ToolCalls message)]) w1 = (msgs', w2, t1)"
      "Reply_Dispatch_loop b n msgs' w2 = (r, w', t2)"
      "t = BackendCall (dispatch_params b msgs) (Inr resp) # t1 @ t2"
proof -
  obtain r0 w1 where c: "tcli b (dispatch_params b msgs) w = (r0, w1)"
    by (cases "tcli b (dispatch_params b msgs) w")
  show thesis
  proof (cases r0)
    case (Inl err)
    with assms c client_error show thesis by simp
  next
    case (Inr resp)
    show thesis
    proof (cases "Choices resp")
      case Nil
      with assms c Inr no_choices show thesis by simp
    next
      case (Cons message rest)
      show thesis
      proof (cases "msg_ToolCalls message = []")
        case True
        with assms c Inr Cons plain show thesis by simp
      next
        case False
        obtain msgs' w2 t1 where l: "Dispatch_loop b (msg_ToolCalls message)
           (msgs @ [ToParam (msg_Content message) (msg_ToolCalls message)]) w1 = (msgs', w2, t1)"
          by (cases "Dispatch_loop b (msg_ToolCalls message)
           (msgs @ [ToParam (msg_Content message) (msg_ToolCalls message)]) w1")
        obtain r3 w3 t2 where n: "Reply_Dispatch_loop b n msgs' w2 = (r3, w3, t2)"
          by (cases "Reply_Dispatch_loop b n msgs' w2")
        with assms c Inr Cons False l have "r = r3" "w' = w3"
          "t = BackendCall (dispatch_params b msgs) (Inr resp) # t1 @ t2" by simp_all
        with again [OF c [unfolded Inr] Cons False l] n show thesis by simp
      qed
    qed
  qed
qed

lemma Reply_loop_bound:
  "Reply_loop a n msgs w = (r, w', t) \<Longrightarrow> backend_calls t \<le> n"
proof (induction n arbitrary: msgs w r w' t)
  case 0
  then show ?case by simp
next
  case (Suc n)
  from Suc.prems show ?case
  proof (cases rule: Reply_loop_Suc_cases)
    case (failed resp message rest w1 e t1)
    from tool_calls_loop_Inl [OF failed(4)] obtain known call where
      "t1 = map ToolCallReceived known @ [ToolCallReceived call]" by blast
    then have "backend_calls t1 = 0"
      by (simp add: backend_calls_append backend_calls_received)
    with failed show ?thesis by simp
  next
    case (again resp message rest w1 msgs' w2 t1 t2)
    from tool_calls_loop_Inr [OF again(4)] have "backend_calls t1 = 0"
      by (simp add: backend_calls_received)
    moreover from Suc.IH [OF again(5)] have "backend_calls t2 \<le> n" .
    ultimately show ?thesis using again by (simp add: backend_calls_append)
  qed simp_all
qed

lemma Reply_Dispatch_loop_bound:
  "Reply_Dispatch_loop b n msgs w = (r, w', t) \<Longrightarrow> backend_calls t \<le> n"
proof (induction n arbitrary: msgs w r w' t)
  case 0
  then show ?case by simp
next
  case (Suc n)
  from Suc.prems show ?case
  proof (cases rule: Reply_Dispatch_loop_Suc_cases)
    case (again resp message rest w1 msgs' w2 t1 t2)
    from Dispatch_loop_results [OF again(4)] have "backend_calls t1 = 0"
      by (simp add: backend_calls_received)
    moreover from Suc.IH [OF again(5)] have "backend_calls t2 \<le> n" .
    ultimately show ?thesis using again by (simp add: backend_calls_append)
  qed simp_all
qed


section \<open>Traces of the loops\<close>

lemma list_all_received: "list_all asks_for_registered_tools (map ToolCallReceived calls) = list_all registered calls"
  by (induction calls) simp_all

lemma Reply_loop_exhausts:
  "Reply_loop a n msgs w = (r, w', t) \<Longrightarrow> list_all asks_for_registered_tools t \<Longrightarrow>
     r = Inl TooManyToolCalls \<and> backend_calls t = n"
proof (induction n arbitrary: msgs w r w' t)
  case 0
  then show ?case by simp
next
  case (Suc n)
  from Suc.prems(1) show ?case
  proof (cases rule: Reply_loop_Suc_cases)
    case (client_error err)
    with Suc.prems(2) show ?thesis by simp
  next
    case (no_choices resp)
    with Suc.prems(2) show ?thesis by simp
  next
    case (plain resp message rest)
    with Suc.prems(2) show ?thesis by simp
  next
    case (failed resp message rest w1 e t1)
    from tool_calls_loop_Inl [OF failed(4)] obtain known call where
      "t1 = map ToolCallReceived known @ [ToolCallReceived call]" "\<not> registered call" by blast
    with failed(6) Suc.prems(2) show ?thesis by simp
  next
    case (again resp message rest w1 msgs' w2 t1 t2)
    from tool_calls_loop_Inr [OF again(4)] have "backend_calls t1 = 0"
      by (simp add: backend_calls_received)
    moreover from again(6) Suc.prems(2) have "list_all asks_for_registered_tools t2" by simp
    from Suc.IH [OF again(5) this] have "r = Inl TooManyToolCalls" "backend_calls t2 = n"
      by simp_all
    ultimately show ?thesis using again(6) by (simp add: backend_calls_append)
  qed
qed

lemma Reply_Dispatch_loop_exhausts:
  "Reply_Dispatch_loop b n msgs w = (r, w', t) \<Longrightarrow> list_all asks_for_tools t \<Longrightarrow>
     r = Inl TooManyToolCalls \<and> backend_calls t = n"
proof (induction n arbitrary: msgs w r w' t)
  case 0
  then show ?case by simp
next
  case (Suc n)
  from Suc.prems(1) show ?case
  proof (cases rule: Reply_Dispatch_loop_Suc_cases)
    case (client_error err)
    with Suc.prems(2) show ?thesis by simp
  next
    case (no_choices resp)
    with Suc.prems(2) show ?thesis by simp
  next
    case (plain resp message rest)
    with Suc.prems(2) show ?thesis by simp
  next
    case (again resp message rest w1 msgs' w2 t1 t2)
    from Dispatch_loop_results [OF again(4)] have "backend_calls t1 = 0"
      by (simp add: backend_calls_received)
    moreover from again(6) Suc.prems(2) have "list_all asks_for_tools t2" by simp
    from Suc.IH [OF again(5) this] have "r = Inl TooManyToolCalls" "backend_calls t2 = n"
      by simp_all
    ultimately show ?thesis using again(6) by (simp add: backend_calls_append)
  qed
qed
















section \<open>Properties of Title\<close>

lemma Trim_no_leading: "Trim s cutset \<noteq> [] \<Longrightarrow> hd (Trim s cutset) \<notin> set cutset"
  unfolding Trim_def by (metis hd_dropWhile)

lemma clean_title_properties:
  "length (clean_title s) \<le> 80 \<and> CHR 0x0A \<notin> set (clean_title s)
   \<and> (clean_title s \<noteq> [] \<longrightarrow> hd (clean_title s) \<notin> set title_cutset)"
proof -
  let ?r = "ReplaceAll s (CHR 0x0A) (CHR 0x20)"
  have n: "CHR 0x0A \<notin> set ?r" by (auto simp: ReplaceAll_def)
  have "set (Trim ?r title_cutset) \<subseteq> set ?r"
    unfolding Trim_def by (metis set_dropWhileD set_rev subsetI)
  with n have nt: "CHR 0x0A \<notin> set (Trim ?r title_cutset)" by blast
  then have "CHR 0x0A \<notin> set (take 80 (Trim ?r title_cutset))" by (meson in_set_takeD)
  moreover have "Trim ?r title_cutset \<noteq> [] \<Longrightarrow> hd (take 80 (Trim ?r title_cutset)) \<notin> set title_cutset"
    using Trim_no_leading [of ?r title_cutset] by (simp add: hd_take)
  ultimately show ?thesis using nt Trim_no_leading [of ?r title_cutset]
    by (auto simp: clean_title_def Let_def)
qed

lemma Trim_no_trailing: "Trim s cutset \<noteq> [] \<Longrightarrow> last (Trim s cutset) \<notin> set cutset"
proof -
  let ?P = "\<lambda>c. c \<in> set cutset"
  let ?r = "rev (dropWhile ?P (rev s))"
  assume ne: "Trim s cutset \<noteq> []"
  from ne have "dropWhile ?P ?r \<noteq> []" unfolding Trim_def .
  then have r_ne: "?r \<noteq> []" by (metis dropWhile.simps(1))
  then have "dropWhile ?P (rev s) \<noteq> []" by simp
  then have "\<not> ?P (hd (dropWhile ?P (rev s)))" by (rule hd_dropWhile)
  then have l: "\<not> ?P (last ?r)" using r_ne by (simp add: last_rev)
  have "Trim s cutset = dropWhile ?P ?r" by (simp add: Trim_def)
  moreover have "last (dropWhile ?P ?r) = last ?r"
    using ne unfolding Trim_def
    by (metis append_take_drop_id last_appendR takeWhile_dropWhile_id)
  ultimately show ?thesis using l by simp
qed

lemma clean_title_short:
  assumes "length (Trim (ReplaceAll s (CHR 0x0A) (CHR 0x20)) title_cutset) \<le> 80"
    and "clean_title s \<noteq> []"
  shows "last (clean_title s) \<notin> set title_cutset"
  using assms Trim_no_trailing [of "ReplaceAll s (CHR 0x0A) (CHR 0x20)" title_cutset]
  by (simp add: clean_title_def Let_def)

text \<open>
  C9. For a conversation with no messages, Title succeeds with the fixed placeholder and
  makes no backend call: the trace is empty and the world is untouched.
\<close>

theorem Title_empty_conversation:
  assumes "Messages conv = []"
  shows "Title complete conv w = (Inr ''An empty conversation'', w, [])
         \<and> backend_calls (snd (snd (Title complete conv w))) = 0"
  using assms by (simp add: Title_def)

theorem Title_empty_conversation_witness:
  "Messages \<lparr>Messages = []\<rparr> = []
   \<and> Title scripted \<lparr>Messages = []\<rparr> [plain_text ''unused''] =
       (Inr ''An empty conversation'', [plain_text ''unused''], [])"
  using Title_empty_conversation [of "\<lparr>Messages = []\<rparr>" scripted "[plain_text ''unused'']"]
  by simp

text \<open>
  C2. The claim is that a title Title returns is at most 80 bytes long, has no newline and
  has no leading or trailing white space or quote. The length bound and the absence of
  newlines hold, and the title does not begin with a character of the cutset: space, tab,
  carriage return, line feed, dash or a quote (\<open>clean_title_properties\<close>). It does not end
  with one either when the trimmed text is at most 80 bytes long (\<open>clean_title_short\<close>).
  For a longer text it can: the title is trimmed before it is cut to 80 bytes, so a cut that
  falls after a space leaves that space at the end. Here the backend answers with 79
  letters, a space and one more letter, and the title returned ends with the space.
\<close>

theorem Title_truncation_leaves_trailing_space:
  "Title scripted one_message [plain_text (replicate 79 (CHR ''a'') @ '' b'')] =
     (Inr (replicate 79 (CHR ''a'') @ '' ''), [],
      [BackendCall (title_params one_message) (plain_text (replicate 79 (CHR ''a'') @ '' b''))])"
  by code_simp

section \<open>Properties of Reply\<close>

text \<open>
  C10. For a conversation with no messages, both versions of Reply return the error
  "conversation has no messages" with an empty trace: no backend call, no tool call, the
  world untouched.
\<close>

theorem Reply_empty_conversation:
  assumes "Messages conv = []"
  shows "Reply a conv w = (Inl NoMessages, w, [])
       \<and> Reply_Dispatch b conv v = (Inl NoMessages, v, [])
       \<and> backend_calls (snd (snd (Reply a conv w))) = 0
       \<and> tool_dispatches (snd (snd (Reply a conv w))) = 0
       \<and> backend_calls (snd (snd (Reply_Dispatch b conv v))) = 0
       \<and> tool_dispatches (snd (snd (Reply_Dispatch b conv v))) = 0"
  using assms by (simp add: Reply_def Reply_Dispatch_def)

theorem Reply_empty_conversation_witness:
  "Messages \<lparr>Messages = []\<rparr> = []
   \<and> Reply (offline scripted) \<lparr>Messages = []\<rparr> [plain_text ''unused''] =
       (Inl NoMessages, [plain_text ''unused''], [])
   \<and> Reply_Dispatch (registry scripted) \<lparr>Messages = []\<rparr> [plain_text ''unused''] =
       (Inl NoMessages, [plain_text ''unused''], [])"
  using Reply_empty_conversation [of "\<lparr>Messages = []\<rparr>" "offline scripted" "[plain_text ''unused'']"
      "registry scripted" "[plain_text ''unused'']"]
  by simp

text \<open>
  C8. When the conversation has a message and the backend's answer to the first request
  has no tool calls in its first choice, Reply returns that choice's content unchanged and
  the trace is that single backend call.
\<close>

theorem Reply_plain_text_first_round:
  assumes "Messages conv \<noteq> []"
    and "Choices resp = message # rest"
    and "msg_ToolCalls message = []"
  shows "(cli a (reply_params (SystemMessage reply_prompt # seed_messages (Messages conv))) w = (Inr resp, w')
          \<longrightarrow> Reply a conv w =
                (Inr (msg_Content message), w',
                 [BackendCall (reply_params (SystemMessage reply_prompt # seed_messages (Messages conv))) (Inr resp)])
              \<and> backend_calls (snd (snd (Reply a conv w))) = 1)
       \<and> (tcli b (dispatch_params b (SystemMessage reply_prompt # seed_messages (Messages conv))) v = (Inr resp, v')
          \<longrightarrow> Reply_Dispatch b conv v =
                (Inr (msg_Content message), v',
                 [BackendCall (dispatch_params b (SystemMessage reply_prompt # seed_messages (Messages conv))) (Inr resp)])
              \<and> backend_calls (snd (snd (Reply_Dispatch b conv v))) = 1)"
  using assms by (simp add: Reply_def Reply_Dispatch_def numeral_eq_Suc)

theorem Reply_plain_text_first_round_witness:
  "Messages one_message \<noteq> []
   \<and> fst (Reply (offline scripted) one_message [plain_text ''  Sunny, 21 C.  '', plain_text ''other'']) = Inr ''  Sunny, 21 C.  ''
   \<and> backend_calls (snd (snd (Reply (offline scripted) one_message [plain_text ''  Sunny, 21 C.  '', plain_text ''other'']))) = 1
   \<and> fst (Reply_Dispatch (registry scripted) one_message [plain_text ''  Sunny, 21 C.  '', plain_text ''other'']) = Inr ''  Sunny, 21 C.  ''
   \<and> backend_calls (snd (snd (Reply_Dispatch (registry scripted) one_message [plain_text ''  Sunny, 21 C.  '', plain_text ''other'']))) = 1"
proof -
  let ?resp = "\<lparr>Choices = [\<lparr>msg_Content = ''  Sunny, 21 C.  '', msg_ToolCalls = []\<rparr>]\<rparr>"
  let ?w = "[plain_text ''  Sunny, 21 C.  '', plain_text ''other'']"
  have h1: "Messages one_message \<noteq> []" by (simp add: one_message_def)
  have h2: "Choices ?resp = \<lparr>msg_Content = ''  Sunny, 21 C.  '', msg_ToolCalls = []\<rparr> # []" by simp
  have h3: "msg_ToolCalls \<lparr>msg_Content = ''  Sunny, 21 C.  '', msg_ToolCalls = []\<rparr> = []" by simp
  have h4: "cli (offline scripted) (reply_params (SystemMessage reply_prompt # seed_messages (Messages one_message))) ?w
              = (Inr ?resp, [plain_text ''other''])"
    by (simp add: offline_def scripted_def plain_text_def)
  have h5: "tcli (registry scripted) (dispatch_params (registry scripted) (SystemMessage reply_prompt # seed_messages (Messages one_message))) ?w
              = (Inr ?resp, [plain_text ''other''])"
    by (simp add: registry_def scripted_def plain_text_def)
  from Reply_plain_text_first_round [OF h1 h2 h3, of "offline scripted" ?w "[plain_text ''other'']"
      "registry scripted" ?w "[plain_text ''other'']"] h4 h5 h1
  show ?thesis by simp
qed

text \<open>
  C6. The claim is that an answer with no text and no tool calls makes Reply fail. Reply
  checks only that the answer has a choice: an answer whose first choice has the empty
  content and no tool calls is returned as a successful, empty reply, by both versions.
  Title does reject such an answer.
\<close>

theorem Reply_empty_answer_succeeds:
  "Reply (offline scripted) one_message [plain_text []] =
     (Inr [], [],
      [BackendCall (reply_params [SystemMessage reply_prompt, UserMessage ''Test message'']) (plain_text [])])
   \<and> Reply_Dispatch (registry scripted) one_message [plain_text []] =
     (Inr [], [],
      [BackendCall (dispatch_params (registry scripted) [SystemMessage reply_prompt, UserMessage ''Test message''])
         (plain_text [])])"
  by (simp add: Reply_def Reply_Dispatch_def one_message_def RoleUser_def numeral_eq_Suc
        offline_def registry_def scripted_def plain_text_def)

text \<open>
  C3. No run of Reply, in either version, makes more than 15 backend calls. A run on a
  conversation with a message in which every backend call is answered with tool calls (for
  the version with the switch: calls of registered tools) ends with the error "too many
  tool calls, unable to generate reply", a value of its own among the errors, after exactly
  15 backend calls; no reply text is returned.
\<close>

theorem Reply_round_trip_limit:
  assumes "Reply a conv w = (r, w', t)"
    and "Reply_Dispatch b conv v = (r2, v', t2)"
  shows "backend_calls t \<le> 15 \<and> backend_calls t2 \<le> 15
       \<and> (Messages conv \<noteq> [] \<and> list_all asks_for_registered_tools t
            \<longrightarrow> r = Inl TooManyToolCalls \<and> backend_calls t = 15)
       \<and> (Messages conv \<noteq> [] \<and> list_all asks_for_tools t2
            \<longrightarrow> r2 = Inl TooManyToolCalls \<and> backend_calls t2 = 15)"
proof (cases "Messages conv = []")
  case True
  with assms show ?thesis by (simp add: Reply_def Reply_Dispatch_def)
next
  case False
  let ?seed = "SystemMessage reply_prompt # seed_messages (Messages conv)"
  from False assms have l: "Reply_loop a 15 ?seed w = (r, w', t)"
    and d: "Reply_Dispatch_loop b 15 ?seed v = (r2, v', t2)"
    by (simp_all add: Reply_def Reply_Dispatch_def)
  from Reply_loop_bound [OF l] Reply_Dispatch_loop_bound [OF d]
    Reply_loop_exhausts [OF l] Reply_Dispatch_loop_exhausts [OF d]
  show ?thesis by blast
qed

theorem Reply_round_trip_limit_witness:
  "Messages one_message \<noteq> []
   \<and> list_all asks_for_registered_tools (snd (snd (Reply (offline keeps_asking) one_message 0)))
   \<and> list_all asks_for_tools (snd (snd (Reply_Dispatch (registry keeps_asking) one_message 0)))
   \<and> fst (Reply (offline keeps_asking) one_message 0) = Inl TooManyToolCalls
   \<and> backend_calls (snd (snd (Reply (offline keeps_asking) one_message 0))) = 15
   \<and> fst (Reply_Dispatch (registry keeps_asking) one_message 0) = Inl TooManyToolCalls
   \<and> backend_calls (snd (snd (Reply_Dispatch (registry keeps_asking) one_message 0))) = 15"
proof -
  let ?R = "Reply (offline keeps_asking) one_message 0"
  let ?D = "Reply_Dispatch (registry keeps_asking) one_message 0"
  have h1: "Messages one_message \<noteq> []" by (simp add: one_message_def)
  have h2: "list_all asks_for_registered_tools (snd (snd ?R))" by code_simp
  have h3: "list_all asks_for_tools (snd (snd ?D))" by code_simp
  have r: "?R = (fst ?R, fst (snd ?R), snd (snd ?R))" by simp
  have d: "?D = (fst ?D, fst (snd ?D), snd (snd ?D))" by simp
  from Reply_round_trip_limit [OF r d] h1 h2 h3 show ?thesis by blast
qed








section \<open>Properties of the coordinator\<close>

text \<open>
  C7. When the title task fails and the reply task succeeds, the coordinator succeeds with
  the default title and the reply's text.
\<close>

theorem title_failure_is_not_fatal:
  assumes "titleFunc conv = Inl e" and "replyFunc conv = Inr text"
  shows "generate_title_and_reply titleFunc replyFunc conv = Inr (defaultTitle, text)"
  using assms by (simp add: generate_title_and_reply_def)

theorem title_failure_is_not_fatal_witness:
  "titleError one_message = Inl ''simulated title generation error''
   \<and> replyWorks one_message = Inr ''Assistant reply works fine''
   \<and> generate_title_and_reply titleError replyWorks one_message =
       Inr (''Untitled conversation'', ''Assistant reply works fine'')"
proof -
  have h1: "titleError one_message = Inl ''simulated title generation error''"
    by (simp add: titleError_def)
  have h2: "replyWorks one_message = Inr ''Assistant reply works fine''"
    by (simp add: replyWorks_def)
  from title_failure_is_not_fatal [of titleError one_message _ replyWorks, OF h1 h2] h1 h2 show ?thesis
    by (simp add: defaultTitle_def)
qed

end
